theory Spec2Isabelle
  imports Complex_Main "HOL-Library.Log_Nat"
begin

section \<open>JavaScript values used by the subscription flow\<close>

subsection \<open>Numbers\<close>

text \<open>
  A JavaScript number is an IEEE 754 binary64 value.  A finite one is represented by the
  rational it denotes, so that two numbers are equal exactly when the doubles are; the
  sign of zero is not kept (\<open>JSON.stringify\<close> writes both zeros as \<open>0\<close>, and this
  program never divides).  Every arithmetic result is rounded to the nearest double,
  ties to the even significand, as the standard prescribes.
\<close>

datatype number = Finite rat | Infinity bool | NaN

text \<open>\<open>ilog2 x\<close> is the exponent \<open>e\<close> with \<open>2^e \<le> x < 2^(e+1)\<close>, for positive \<open>x\<close>.\<close>

definition ilog2 :: "rat \<Rightarrow> int" where
  "ilog2 x = (let (p, q) = quotient_of x; d = bitlen p - bitlen q
              in if 2 powi d \<le> x then d else d - 1)"

definition round_half_even :: "rat \<Rightarrow> int" where
  "round_half_even x =
     (let f = \<lfloor>x\<rfloor>; r = x - of_int f
      in if r < 1 / 2 then f
         else if 1 / 2 < r then f + 1
         else if even f then f else f + 1)"

text \<open>
  Rounding of an exact value to binary64: 53 significant bits, the exponent not below
  that of the subnormals, overflow to infinity.  The flag of \<open>Infinity\<close> is the sign
  (\<open>True\<close> for the negative one).
\<close>

definition to_double :: "rat \<Rightarrow> number" where
  "to_double x =
     (if x = 0 then Finite 0
      else let a = \<bar>x\<bar>;
               e = max (ilog2 a) (- 1022);
               q = 2 powi (e - 52);
               r = of_int (round_half_even (a / q)) * q
           in if 2 powi 1024 \<le> r then Infinity (x < 0)
              else Finite (if x < 0 then - r else r))"

text \<open>The operator \<open>*\<close> on numbers.\<close>

fun js_times :: "number \<Rightarrow> number \<Rightarrow> number" where
  "js_times NaN _ = NaN"
| "js_times _ NaN = NaN"
| "js_times (Finite x) (Finite y) = to_double (x * y)"
| "js_times (Finite x) (Infinity s) =
     (if x = 0 then NaN else Infinity ((x < 0) \<noteq> s))"
| "js_times (Infinity s) (Finite y) =
     (if y = 0 then NaN else Infinity (s \<noteq> (y < 0)))"
| "js_times (Infinity s) (Infinity t) = Infinity (s \<noteq> t)"

text \<open>
  \<open>Math.round\<close>: the nearest integer, a tie going towards plus infinity.  The result
  of rounding a finite double is again a double.
\<close>

fun Math_round :: "number \<Rightarrow> number" where
  "Math_round (Finite x) = Finite (of_int \<lfloor>x + 1 / 2\<rfloor>)"
| "Math_round (Infinity s) = Infinity s"
| "Math_round NaN = NaN"

subsection \<open>Strings\<close>

text \<open>
  A string is the list of its code units.  Every literal of the program lies in Latin-1,
  so that each of its code units is one \<open>char\<close>: \<open>0xE7\<close> is the c with cedilla,
  \<open>0xEA\<close> the e with circumflex, \<open>0xE1\<close> the a with acute accent.
\<close>

text \<open>\<open>s.split(c)\<close> for a separator of one character.\<close>

fun split :: "char \<Rightarrow> string \<Rightarrow> string list" where
  "split c [] = [[]]"
| "split c (x # xs) =
     (if x = c then [] # split c xs
      else (let r = split c xs in (x # hd r) # tl r))"

text \<open>The decimal digits of a natural number, as a template literal prints it.\<close>

fun show_nat :: "nat \<Rightarrow> string" where
  "show_nat n =
     (if n < 10 then [''0123456789'' ! n]
      else show_nat (n div 10) @ [''0123456789'' ! (n mod 10)])"

declare show_nat.simps [simp del]

text \<open>
  A value that may be \<open>undefined\<close> is an option.  Of strings, the empty one and
  \<open>undefined\<close> are falsy; \<open>a || b\<close> is \<open>a\<close> when \<open>a\<close> is truthy and \<open>b\<close>
  otherwise.
\<close>

definition truthy :: "string option \<Rightarrow> bool" where
  "truthy a = (case a of None \<Rightarrow> False | Some s \<Rightarrow> s \<noteq> [])"

definition js_or :: "string option \<Rightarrow> string option \<Rightarrow> string option" where
  "js_or a b = (if truthy a then a else b)"

text \<open>\<open>a || 'literal'\<close> with a non-empty literal, which is always a string.\<close>

definition js_or_literal :: "string option \<Rightarrow> string \<Rightarrow> string" where
  "js_or_literal a d = (case a of None \<Rightarrow> d | Some s \<Rightarrow> if s = [] then d else s)"

subsection \<open>JSON documents, console output and HTTP calls\<close>

datatype json = JBool bool | JStr string | JObj "(string \<times> json) list"

datatype console = ConsoleLog "string list" | ConsoleError "string list"

text \<open>The arguments of one call of \<open>fetch\<close>; the body is kept before serialisation.\<close>

record 'b fetch_call =
  fc_url :: string
  fc_method :: string
  fc_headers :: "(string \<times> string) list"
  fc_body :: 'b

section \<open>The billing request initiator: \<open>handleSubscribe\<close>\<close>

record user_metadata =
  full_name :: "string option"
  cpf :: "string option"

text \<open>The authenticated user of the identity provider: \<open>id\<close>, \<open>email\<close>, \<open>user_metadata\<close>.\<close>

record user =
  user_id' :: string
  user_email :: "string option"
  user_metadata :: "user_metadata option"

text \<open>
  The object passed to \<open>JSON.stringify\<close>.  \<open>email\<close> is \<open>user.email\<close>, which may be
  \<open>undefined\<close>; such a field is left out of the text sent.
\<close>

record payload_user_data =
  payload_name :: string
  payload_email :: "string option"
  payload_cpf :: string

record payload =
  payload_user_id :: string
  payload_user_data :: payload_user_data
  payload_amount :: number
  payload_description :: string

text \<open>
  What the handler's reply looks like to the page: \<open>fetch\<close> rejects with an error,
  or there is a response with its \<open>ok\<close> flag and the outcome of \<open>response.json()\<close>
  (the message of the error when it rejects or the document has no fields to read).
  Of the document, \<open>success\<close> is whether \<open>data.success\<close> is truthy.
\<close>

record reply_data =
  success :: bool
  redirect_url :: "string option"

datatype reply = NetworkFailure string | Reply bool "string + reply_data"

datatype ui_effect =
    ToastError string
  | Navigate string
  | SetIsLoading bool
  | Fetch "payload fetch_call"
  | SetLocationHref string
  | Console console

definition toast_login :: string where
  "toast_login = ''Voc'' @ [CHR 0xEA] @ '' precisa estar logado para assinar''"

definition toast_erro :: string where
  "toast_erro = ''Erro ao processar assinatura. Tente novamente.''"

definition falha_ao_criar :: string where
  "falha_ao_criar = ''Falha ao criar cobran'' @ [CHR 0xE7] @ ''a''"

definition resposta_invalida :: string where
  "resposta_invalida = ''Resposta inv'' @ [CHR 0xE1] @ ''lida do servidor''"

text \<open>\<open>user.user_metadata?.full_name\<close> and \<open>user.user_metadata?.cpf\<close>.\<close>

definition metadata_full_name :: "user \<Rightarrow> string option" where
  "metadata_full_name u =
     (case user_metadata u of None \<Rightarrow> None | Some m \<Rightarrow> full_name m)"

definition metadata_cpf :: "user \<Rightarrow> string option" where
  "metadata_cpf u = (case user_metadata u of None \<Rightarrow> None | Some m \<Rightarrow> cpf m)"

text \<open>\<open>user.email?.split('@')[0]\<close>.\<close>

definition email_local_part :: "user \<Rightarrow> string option" where
  "email_local_part u =
     (case user_email u of
        None \<Rightarrow> None
      | Some e \<Rightarrow> (case split (CHR ''@'') e of [] \<Rightarrow> None | s # _ \<Rightarrow> Some s))"

definition subscribe_payload :: "user \<Rightarrow> payload" where
  "subscribe_payload u =
     \<lparr> payload_user_id = user_id' u,
       payload_user_data =
         \<lparr> payload_name =
             js_or_literal (js_or (metadata_full_name u) (email_local_part u)) ''Cliente'',
           payload_email = user_email u,
           payload_cpf = js_or_literal (metadata_cpf u) ''00000000000'' \<rparr>,
       payload_amount = to_double (99 / 10),
       payload_description = ''Assinatura mensal PRAXIS'' \<rparr>"

definition subscribe_call :: "user \<Rightarrow> payload fetch_call" where
  "subscribe_call u =
     \<lparr> fc_url = ''https://praxiis.xyz/functions/v1/create-abacatepay-billing'',
       fc_method = ''POST'',
       fc_headers = [(''Content-Type'', ''application/json''),
                     (''Authorization'', ''Bearer '' @ user_id' u)],
       fc_body = subscribe_payload u \<rparr>"

text \<open>
  The body of the \<open>try\<close> block after the request was sent: the effects it has, or the
  message of the error it throws.
\<close>

definition after_fetch :: "reply \<Rightarrow> string + ui_effect list" where
  "after_fetch r =
     (case r of
        NetworkFailure msg \<Rightarrow> Inl msg
      | Reply ok_flag parsed \<Rightarrow>
          if \<not> ok_flag then Inl falha_ao_criar
          else (case parsed of
                  Inl msg \<Rightarrow> Inl msg
                | Inr d \<Rightarrow>
                    (case redirect_url d of
                       None \<Rightarrow> Inl resposta_invalida
                     | Some url \<Rightarrow>
                         if success d \<and> url \<noteq> []
                         then Inr [SetLocationHref url]
                         else Inl resposta_invalida)))"

text \<open>
  \<open>handleSubscribe\<close>, given the user of the authentication context and the behaviour of
  the network, as the list of the effects it has, in order.
\<close>

definition handleSubscribe ::
  "user option \<Rightarrow> (payload fetch_call \<Rightarrow> reply) \<Rightarrow> ui_effect list" where
  "handleSubscribe usr network =
     (case usr of
        None \<Rightarrow> [ToastError toast_login, Navigate ''/auth/login'']
      | Some u \<Rightarrow>
          [SetIsLoading True, Fetch (subscribe_call u)]
          @ (case after_fetch (network (subscribe_call u)) of
               Inr effects \<Rightarrow> effects
             | Inl msg \<Rightarrow>
                 [Console (ConsoleError [''Error creating subscription:'', msg]),
                  ToastError toast_erro])
          @ [SetIsLoading False])"

section \<open>The billing creation handler: \<open>serve\<close>\<close>

definition corsHeaders :: "(string \<times> string) list" where
  "corsHeaders =
     [(''Access-Control-Allow-Origin'', ''*''),
      (''Access-Control-Allow-Headers'',
       ''authorization, x-client-info, apikey, content-type'')]"

text \<open>The interface \<open>BillingRequest\<close>.\<close>

record user_data =
  name :: string
  email :: string
  req_cpf :: string

record BillingRequest =
  user_id :: string
  user_data :: user_data
  amount :: number
  description :: string

text \<open>
  The incoming request.  Its body is given by what \<open>req.json()\<close> does with it: it
  rejects with an error (of which the message is kept), or it yields a document, read
  at the type \<open>BillingRequest\<close> that the handler declares for it.
\<close>

record request =
  req_method :: string
  req_headers :: "(string \<times> string) list"
  req_body :: "string + BillingRequest"

datatype response_body = NoBody | Text string | Json json

record response =
  status :: nat
  headers :: "(string \<times> string) list"
  body :: response_body

text \<open>The object \<open>billingData\<close> sent to the provider.\<close>

record customer =
  customer_name :: string
  customer_email :: string
  taxId :: string
  cellphone :: string

record product =
  externalId :: string
  product_name :: string
  product_description :: string
  quantity :: number
  price :: number

record billing_data =
  frequency :: string
  methods :: "string list"
  billing_customer :: customer
  products :: "product list"

definition billingData :: "BillingRequest \<Rightarrow> billing_data" where
  "billingData r =
     \<lparr> frequency = ''MONTHLY'',
       methods = [''PIX''],
       billing_customer =
         \<lparr> customer_name = name (user_data r),
           customer_email = email (user_data r),
           taxId = req_cpf (user_data r),
           cellphone = [] \<rparr>,
       products =
         [\<lparr> externalId = ''praxis-monthly-'' @ user_id r,
            product_name = ''PRAXIS - Assinatura Mensal'',
            product_description = description r,
            quantity = Finite 1,
            price = Math_round (js_times (amount r) (Finite 100)) \<rparr>] \<rparr>"

text \<open>
  The provider's answer: \<open>fetch\<close> rejects, or there is a response with a status, a
  text and the outcome of reading \<open>data.id\<close> and \<open>data.url\<close> from its JSON document
  (the message of the error when that throws).
\<close>

record abacatePayResult_data =
  data_id :: string
  data_url :: string

record provider_response =
  provider_status :: nat
  provider_text :: string
  provider_json :: "string + abacatePayResult_data"

datatype provider_outcome = FetchRejected string | Responded provider_response

text \<open>The \<open>ok\<close> flag of a response: the status is in the range 200 to 299.\<close>

definition ok :: "provider_response \<Rightarrow> bool" where
  "ok r = (200 \<le> provider_status r \<and> provider_status r \<le> 299)"

text \<open>The rows written, and the two tables.\<close>

record profile_row =
  profile_user_id :: string
  assinatura_id :: string
  data_assinatura :: string
  proximo_pagamento :: string
  assinatura_ativa :: bool
  updated_at :: string

record payment_row =
  payment_user_id :: string
  payment_assinatura_id :: string
  efi_charge_id :: string
  valor :: number
  metodo_pagamento :: string
  payment_status :: string

record db =
  user_profiles :: "string \<rightharpoonup> profile_row"
  pagamentos :: "payment_row list"

text \<open>
  What surrounds one invocation: the environment variable holding the provider's token,
  the provider, the three readings of the clock (already as the ISO strings stored: the
  date one month ahead, and \<open>new Date().toISOString()\<close> twice), and the error, if any,
  that the database reports for each of the two writes.
\<close>

record env =
  ABACATEPAY_API_TOKEN :: "string option"
  provider :: "billing_data fetch_call \<Rightarrow> provider_outcome"
  nextPayment_iso :: string
  data_assinatura_iso :: string
  updated_at_iso :: string
  updateProfileError :: "string option"
  insertPaymentError :: "string option"

text \<open>
  What the handler does to the outside, in order: reading the body of the request,
  writing to the console, calling the provider, and the two writes.  Creating the
  database client has no effect of its own and is not listed.
\<close>

datatype call =
    ReadJson
  | Log console
  | ProviderFetch "billing_data fetch_call"
  | Upsert profile_row
  | Insert payment_row

text \<open>
  The two writes.  An upsert creates the row of the user or overwrites it; an insert
  appends.  A write for which the database reports an error changes nothing.
\<close>

definition upsert :: "string option \<Rightarrow> profile_row \<Rightarrow> db \<Rightarrow> db" where
  "upsert err row d =
     (case err of
        Some _ \<Rightarrow> d
      | None \<Rightarrow> d\<lparr>user_profiles := (user_profiles d)(profile_user_id row \<mapsto> row)\<rparr>)"

definition insert_row :: "string option \<Rightarrow> payment_row \<Rightarrow> db \<Rightarrow> db" where
  "insert_row err row d =
     (case err of
        Some _ \<Rightarrow> d
      | None \<Rightarrow> d\<lparr>pagamentos := pagamentos d @ [row]\<rparr>)"

definition provider_call :: "env \<Rightarrow> BillingRequest \<Rightarrow> billing_data fetch_call" where
  "provider_call e r =
     \<lparr> fc_url = ''https://api.abacatepay.com/v1/billing/create'',
       fc_method = ''POST'',
       fc_headers =
         [(''Content-Type'', ''application/json''),
          (''Authorization'',
           ''Bearer '' @ (case ABACATEPAY_API_TOKEN e of
                            None \<Rightarrow> ''undefined'' | Some t \<Rightarrow> t))],
       fc_body = billingData r \<rparr>"

definition profile_of :: "env \<Rightarrow> BillingRequest \<Rightarrow> abacatePayResult_data \<Rightarrow> profile_row" where
  "profile_of e r d =
     \<lparr> profile_user_id = user_id r,
       assinatura_id = data_id d,
       data_assinatura = data_assinatura_iso e,
       proximo_pagamento = nextPayment_iso e,
       assinatura_ativa = False,
       updated_at = updated_at_iso e \<rparr>"

definition payment_of :: "BillingRequest \<Rightarrow> abacatePayResult_data \<Rightarrow> payment_row" where
  "payment_of r d =
     \<lparr> payment_user_id = user_id r,
       payment_assinatura_id = data_id d,
       efi_charge_id = data_id d,
       valor = amount r,
       metodo_pagamento = ''pix'',
       payment_status = ''pending'' \<rparr>"

definition cobranca_criada :: string where
  "cobranca_criada = ''Cobran'' @ [CHR 0xE7] @ ''a criada com sucesso''"

definition json_headers :: "(string \<times> string) list" where
  "json_headers = corsHeaders @ [(''Content-Type'', ''application/json'')]"

definition success_response :: "abacatePayResult_data \<Rightarrow> response" where
  "success_response d =
     \<lparr> status = 200,
       headers = json_headers,
       body = Json (JObj [(''success'', JBool True),
                          (''billing_id'', JStr (data_id d)),
                          (''redirect_url'', JStr (data_url d)),
                          (''message'', JStr cobranca_criada)]) \<rparr>"

definition error_response :: "string \<Rightarrow> response" where
  "error_response msg =
     \<lparr> status = 500,
       headers = json_headers,
       body = Json (JObj [(''error'', JStr falha_ao_criar),
                          (''message'', JStr msg)]) \<rparr>"

text \<open>
  The third step of the \<open>try\<close> block, after the provider's result was read: the two
  writes and the response.  The result is the response, or the message of the error
  thrown, with the database and the calls made.
\<close>

definition persist ::
  "env \<Rightarrow> BillingRequest \<Rightarrow> abacatePayResult_data \<Rightarrow> db
     \<Rightarrow> (string + response) \<times> db \<times> call list" where
  "persist e r d s =
     (let s1 = upsert (updateProfileError e) (profile_of e r d) s
      in case updateProfileError e of
           Some msg \<Rightarrow>
             (Inl msg, s1,
              [Upsert (profile_of e r d),
               Log (ConsoleError [''Error updating user profile:'', msg])])
         | None \<Rightarrow>
             (let s2 = insert_row (insertPaymentError e) (payment_of r d) s1
              in case insertPaymentError e of
                   Some msg \<Rightarrow>
                     (Inl msg, s2,
                      [Upsert (profile_of e r d), Insert (payment_of r d),
                       Log (ConsoleError [''Error creating payment record:'', msg])])
                 | None \<Rightarrow>
                     (Inr (success_response d), s2,
                      [Upsert (profile_of e r d), Insert (payment_of r d),
                       Log (ConsoleLog
                              [''Billing and payment records created successfully''])])))"

text \<open>The second step: the call of the provider, and what follows from its answer.\<close>

definition call_provider ::
  "env \<Rightarrow> BillingRequest \<Rightarrow> db \<Rightarrow> (string + response) \<times> db \<times> call list" where
  "call_provider e r s =
     (case provider e (provider_call e r) of
        FetchRejected msg \<Rightarrow> (Inl msg, s, [ProviderFetch (provider_call e r)])
      | Responded p \<Rightarrow>
          if \<not> ok p
          then (Inl (''AbacatePay API error: '' @ show_nat (provider_status p)), s,
                [ProviderFetch (provider_call e r),
                 Log (ConsoleError [''AbacatePay API error:'', provider_text p])])
          else (case provider_json p of
                  Inl msg \<Rightarrow> (Inl msg, s, [ProviderFetch (provider_call e r)])
                | Inr d \<Rightarrow>
                    (case persist e r d s of
                       (res, s', cs) \<Rightarrow>
                         (res, s',
                          [ProviderFetch (provider_call e r),
                           Log (ConsoleLog [''AbacatePay billing created:'', data_id d])]
                          @ cs))))"

text \<open>The whole \<open>try\<close> block.\<close>

definition try_block ::
  "env \<Rightarrow> request \<Rightarrow> db \<Rightarrow> (string + response) \<times> db \<times> call list" where
  "try_block e req s =
     (case req_body req of
        Inl msg \<Rightarrow> (Inl msg, s, [ReadJson])
      | Inr r \<Rightarrow>
          (case call_provider e r s of
             (res, s', cs) \<Rightarrow>
               (res, s',
                [ReadJson,
                 Log (ConsoleLog [''Creating AbacatePay billing for user:'', user_id r])]
                @ cs)))"

text \<open>
  The handler: the response, the database afterwards, and the calls made, in order.
\<close>

definition serve :: "env \<Rightarrow> request \<Rightarrow> db \<Rightarrow> response \<times> db \<times> call list" where
  "serve e req s =
     (if req_method req = ''OPTIONS''
      then (\<lparr>status = 200, headers = corsHeaders, body = NoBody\<rparr>, s, [])
      else if req_method req \<noteq> ''POST''
      then (\<lparr>status = 405, headers = corsHeaders, body = Text ''Method not allowed''\<rparr>,
            s, [])
      else (case try_block e req s of
              (Inr resp, s', cs) \<Rightarrow> (resp, s', cs)
            | (Inl msg, s', cs) \<Rightarrow>
                (error_response msg, s',
                 cs @ [Log (ConsoleError [''Error creating AbacatePay billing:'', msg])])))"

text \<open>The three parts of what an invocation of the handler yields.\<close>

definition sent :: "response \<times> db \<times> call list \<Rightarrow> response" where
  "sent out = fst out"

definition stored :: "response \<times> db \<times> call list \<Rightarrow> db" where
  "stored out = fst (snd out)"

definition calls :: "response \<times> db \<times> call list \<Rightarrow> call list" where
  "calls out = snd (snd out)"

section \<open>A concrete run\<close>

text \<open>
  The request of the user \<open>abc123\<close> for the monthly plan, a provider that answers every
  call with a given status and the billing \<open>bill_1\<close>, and an empty database.
\<close>

definition example_body :: BillingRequest where
  "example_body =
     \<lparr> user_id = ''abc123'',
       user_data = \<lparr> name = ''Maria Silva'', email = ''maria@x.com'',
                     req_cpf = ''00000000000'' \<rparr>,
       amount = to_double (99 / 10),
       description = ''Assinatura mensal PRAXIS'' \<rparr>"

definition example_request :: request where
  "example_request =
     \<lparr> req_method = ''POST'',
       req_headers = [(''Content-Type'', ''application/json''),
                      (''Authorization'', ''Bearer abc123'')],
       req_body = Inr example_body \<rparr>"

definition mock_data :: abacatePayResult_data where
  "mock_data = \<lparr> data_id = ''bill_1'', data_url = ''https://pay/bill_1'' \<rparr>"

definition mock_response :: "nat \<Rightarrow> provider_response" where
  "mock_response st =
     \<lparr> provider_status = st, provider_text = ''{}'', provider_json = Inr mock_data \<rparr>"

definition mock_env :: "nat \<Rightarrow> string option \<Rightarrow> string option \<Rightarrow> env" where
  "mock_env st up ins =
     \<lparr> ABACATEPAY_API_TOKEN = Some ''token'',
       provider = (\<lambda>c. Responded (mock_response st)),
       nextPayment_iso = ''2024-02-01T00:00:00.000Z'',
       data_assinatura_iso = ''2024-01-01T00:00:00.000Z'',
       updated_at_iso = ''2024-01-01T00:00:00.000Z'',
       updateProfileError = up,
       insertPaymentError = ins \<rparr>"

definition empty_db :: db where
  "empty_db = \<lparr> user_profiles = Map.empty, pagamentos = [] \<rparr>"

text \<open>The same request with the amount written \<open>9.905\<close>.\<close>

definition example_body_9_905 :: BillingRequest where
  "example_body_9_905 = example_body\<lparr>amount := to_double (9905 / 1000)\<rparr>"

definition example_request_9_905 :: request where
  "example_request_9_905 = example_request\<lparr>req_body := Inr example_body_9_905\<rparr>"

text \<open>
  Three users of the page: one with a full name and no tax number in the profile, one
  with a tax number only, one with neither profile nor address.
\<close>

definition maria :: user where
  "maria =
     \<lparr> user_id' = ''abc123'',
       user_email = Some ''maria@x.com'',
       user_metadata = Some \<lparr> full_name = Some ''Maria Silva'', cpf = None \<rparr> \<rparr>"

definition joao :: user where
  "joao =
     \<lparr> user_id' = ''def456'',
       user_email = Some ''joao@x.com'',
       user_metadata = Some \<lparr> full_name = None, cpf = Some ''12345678909'' \<rparr> \<rparr>"

definition anonymous :: user where
  "anonymous = \<lparr> user_id' = ''ghi789'', user_email = None, user_metadata = None \<rparr>"

definition offline :: "payload fetch_call \<Rightarrow> reply" where
  "offline c = NetworkFailure ''Failed to fetch''"

section \<open>Properties of the handler\<close>

lemmas outs = sent_def stored_def calls_def

lemmas steps = serve_def try_block_def call_provider_def persist_def

lemmas mocks = example_request_def example_body_def mock_env_def mock_response_def
  mock_data_def empty_db_def

text \<open>
  Claim C1.  For a \<open>POST\<close> request with a readable body, when the provider answers
  with a success status and a result carrying \<open>data.id\<close> and \<open>data.url\<close>, and neither
  write reports an error (the handler runs to the end of its \<open>try\<close> block), the
  response is 200 with the body \<open>{success: true, billing_id, redirect_url, message}\<close>
  built from \<open>data.id\<close> and \<open>data.url\<close>; afterwards \<open>user_profiles\<close> holds a row for
  the user and \<open>pagamentos\<close> a new last row for the user, both with the provider's
  billing identifier.
\<close>

theorem provider_success_persists_both_records:
  assumes "req_method req = ''POST''" and "req_body req = Inr r"
    and "provider e (provider_call e r) = Responded p" and "ok p"
    and "provider_json p = Inr d"
    and "updateProfileError e = None" and "insertPaymentError e = None"
  shows "status (sent (serve e req s)) = 200
       \<and> body (sent (serve e req s)) =
           Json (JObj [(''success'', JBool True),
                       (''billing_id'', JStr (data_id d)),
                       (''redirect_url'', JStr (data_url d)),
                       (''message'', JStr cobranca_criada)])
       \<and> (\<exists>row. user_profiles (stored (serve e req s)) (user_id r) = Some row
                \<and> assinatura_id row = data_id d)
       \<and> (\<exists>pay. pagamentos (stored (serve e req s)) = pagamentos s @ [pay]
                \<and> payment_user_id pay = user_id r
                \<and> payment_assinatura_id pay = data_id d)"
  using assms
  by (simp add: outs steps success_response_def upsert_def insert_row_def
      profile_of_def payment_of_def)

theorem provider_success_persists_both_records_witness:
  "status (sent (serve (mock_env 200 None None) example_request empty_db)) = 200
   \<and> body (sent (serve (mock_env 200 None None) example_request empty_db)) =
       Json (JObj [(''success'', JBool True),
                   (''billing_id'', JStr ''bill_1''),
                   (''redirect_url'', JStr ''https://pay/bill_1''),
                   (''message'', JStr cobranca_criada)])
   \<and> (\<exists>row. user_profiles (stored (serve (mock_env 200 None None) example_request empty_db))
               ''abc123'' = Some row
            \<and> assinatura_id row = ''bill_1'')
   \<and> (\<exists>pay. pagamentos (stored (serve (mock_env 200 None None) example_request empty_db))
               = [pay]
            \<and> payment_user_id pay = ''abc123''
            \<and> payment_assinatura_id pay = ''bill_1'')"
proof -
  have h1: "req_method example_request = ''POST''"
    by (simp add: example_request_def)
  have h2: "req_body example_request = Inr example_body"
    by (simp add: example_request_def)
  have h3: "provider (mock_env 200 None None)
              (provider_call (mock_env 200 None None) example_body)
            = Responded (mock_response 200)"
    by (simp add: mock_env_def)
  have h4: "ok (mock_response 200)"
    by (simp add: ok_def mock_response_def)
  have h5: "provider_json (mock_response 200) = Inr mock_data"
    by (simp add: mock_response_def)
  have h6: "updateProfileError (mock_env 200 None None) = None"
    by (simp add: mock_env_def)
  have h7: "insertPaymentError (mock_env 200 None None) = None"
    by (simp add: mock_env_def)
  have v: "user_id example_body = ''abc123''" "data_id mock_data = ''bill_1''"
    "data_url mock_data = ''https://pay/bill_1''" "pagamentos empty_db = []"
    by (simp_all add: example_body_def mock_data_def empty_db_def)
  show ?thesis
    using provider_success_persists_both_records [OF h1 h2 h3 h4 h5 h6 h7, of empty_db]
    by (simp add: v)
qed

text \<open>
  Claim C2.  When the provider answers the call with a status outside 200 to 299, the
  response has status 500, the database is the one before the request, and the handler
  has made no upsert and no insert.
\<close>

theorem provider_failure_changes_nothing:
  assumes "req_method req = ''POST''" and "req_body req = Inr r"
    and "provider e (provider_call e r) = Responded p" and "\<not> ok p"
  shows "status (sent (serve e req s)) = 500
       \<and> stored (serve e req s) = s
       \<and> (\<forall>row. Upsert row \<notin> set (calls (serve e req s)))
       \<and> (\<forall>row. Insert row \<notin> set (calls (serve e req s)))"
  using assms
  by (simp add: outs serve_def try_block_def call_provider_def error_response_def)

theorem provider_failure_changes_nothing_witness:
  "req_method example_request = ''POST''
   \<and> req_body example_request = Inr example_body
   \<and> provider (mock_env 402 None None) (provider_call (mock_env 402 None None) example_body)
       = Responded (mock_response 402)
   \<and> \<not> ok (mock_response 402)
   \<and> status (sent (serve (mock_env 402 None None) example_request empty_db)) = 500
   \<and> stored (serve (mock_env 402 None None) example_request empty_db) = empty_db
   \<and> (\<forall>row. Upsert row \<notin> set (calls (serve (mock_env 402 None None) example_request empty_db)))
   \<and> (\<forall>row. Insert row \<notin> set (calls (serve (mock_env 402 None None) example_request empty_db)))"
proof -
  have h1: "req_method example_request = ''POST''"
    by (simp add: example_request_def)
  have h2: "req_body example_request = Inr example_body"
    by (simp add: example_request_def)
  have h3: "provider (mock_env 402 None None)
              (provider_call (mock_env 402 None None) example_body)
            = Responded (mock_response 402)"
    by (simp add: mock_env_def)
  have h4: "\<not> ok (mock_response 402)"
    by (simp add: ok_def mock_response_def)
  show ?thesis
    using h1 h2 h3 h4 provider_failure_changes_nothing [OF h1 h2 h3 h4, of empty_db]
    by blast
qed

text \<open>
  Claim C4.  Every row the handler passes to the upsert has \<open>assinatura_ativa = false\<close>,
  and every row of \<open>user_profiles\<close> that is new or changed after a request has it too:
  nothing in the handler sets the flag.
\<close>

theorem assinatura_ativa_never_set:
  "(\<forall>row. Upsert row \<in> set (calls (serve e req s)) \<longrightarrow> \<not> assinatura_ativa row)
   \<and> (\<forall>u row. user_profiles (stored (serve e req s)) u = Some row
               \<and> user_profiles s u \<noteq> Some row \<longrightarrow> \<not> assinatura_ativa row)"
  by (auto simp: outs steps upsert_def insert_row_def profile_of_def Let_def
      split: sum.splits provider_outcome.splits option.splits if_splits)

theorem assinatura_ativa_never_set_witness:
  "Upsert (profile_of (mock_env 200 None None) example_body mock_data)
     \<in> set (calls (serve (mock_env 200 None None) example_request empty_db))
   \<and> \<not> assinatura_ativa (profile_of (mock_env 200 None None) example_body mock_data)
   \<and> user_profiles (stored (serve (mock_env 200 None None) example_request empty_db)) ''abc123''
       = Some (profile_of (mock_env 200 None None) example_body mock_data)
   \<and> user_profiles empty_db ''abc123''
       \<noteq> Some (profile_of (mock_env 200 None None) example_body mock_data)"
proof -
  have h1: "Upsert (profile_of (mock_env 200 None None) example_body mock_data)
              \<in> set (calls (serve (mock_env 200 None None) example_request empty_db))"
    by (simp add: outs steps mocks ok_def)
  have h2: "user_profiles (stored (serve (mock_env 200 None None) example_request empty_db))
              ''abc123''
            = Some (profile_of (mock_env 200 None None) example_body mock_data)"
    by (simp add: outs steps mocks ok_def upsert_def insert_row_def profile_of_def)
  have h3: "user_profiles empty_db ''abc123''
            \<noteq> Some (profile_of (mock_env 200 None None) example_body mock_data)"
    by (simp add: empty_db_def)
  show ?thesis
    using h1 h2 h3
      assinatura_ativa_never_set [of "mock_env 200 None None" example_request empty_db]
    by blast
qed

text \<open>
  Claim C6.  The handler never reads the headers of the request: two requests that
  differ only in their headers, the \<open>Authorization\<close> header among them, get the same
  response, leave the same database and make the same calls.
\<close>

theorem serve_ignores_request_headers:
  "serve e (req\<lparr>req_headers := h\<rparr>) s = serve e (req\<lparr>req_headers := h'\<rparr>) s"
  by (simp add: serve_def try_block_def)

theorem serve_ignores_request_headers_witness:
  "serve (mock_env 200 None None) (example_request\<lparr>req_headers := []\<rparr>) empty_db
   = serve (mock_env 200 None None)
       (example_request\<lparr>req_headers := [(''Authorization'', ''Bearer someone-else'')]\<rparr>)
       empty_db"
  using serve_ignores_request_headers
    [where e = "mock_env 200 None None" and req = example_request and h = "[]"
      and s = empty_db]
  by simp

text \<open>
  Claim C7.  An \<open>OPTIONS\<close> request is answered with status 200, no body and the
  cross-origin headers, which allow every origin; a request of any method other than
  \<open>OPTIONS\<close> and \<open>POST\<close> is answered with status 405.  In both cases the database is
  left as it was and the handler makes no call at all: the body is not read.
\<close>

theorem method_dispatch:
  "(req_method req = ''OPTIONS'' \<longrightarrow>
      serve e req s = (\<lparr>status = 200, headers = corsHeaders, body = NoBody\<rparr>, s, []))
   \<and> (req_method req \<noteq> ''OPTIONS'' \<and> req_method req \<noteq> ''POST'' \<longrightarrow>
      serve e req s =
        (\<lparr>status = 405, headers = corsHeaders, body = Text ''Method not allowed''\<rparr>, s, []))
   \<and> (''Access-Control-Allow-Origin'', ''*'') \<in> set corsHeaders"
  by (simp add: serve_def corsHeaders_def)

theorem method_dispatch_witness:
  "serve (mock_env 200 None None) (example_request\<lparr>req_method := ''OPTIONS''\<rparr>) empty_db
     = (\<lparr>status = 200, headers = corsHeaders, body = NoBody\<rparr>, empty_db, [])
   \<and> serve (mock_env 200 None None) (example_request\<lparr>req_method := ''GET''\<rparr>) empty_db
     = (\<lparr>status = 405, headers = corsHeaders, body = Text ''Method not allowed''\<rparr>,
        empty_db, [])"
  using
    method_dispatch [of "example_request\<lparr>req_method := ''OPTIONS''\<rparr>"
      "mock_env 200 None None" empty_db]
    method_dispatch [of "example_request\<lparr>req_method := ''GET''\<rparr>"
      "mock_env 200 None None" empty_db]
  by simp

subsection \<open>The request sent to the provider\<close>

lemma provider_called:
  assumes "req_method req = ''POST''" and "req_body req = Inr r"
  shows "ProviderFetch (provider_call e r) \<in> set (calls (serve e req s))"
  using assms
  by (auto simp: outs steps Let_def
      split: sum.splits provider_outcome.splits option.splits if_splits)

lemma price_transmitted:
  "map price (products (fc_body (provider_call e r)))
     = [Math_round (js_times (amount r) (Finite 100))]"
  by (simp add: provider_call_def billingData_def)

text \<open>
  Claim C10.  For a \<open>POST\<close> request with a readable body the provider is called, and
  in every call of the provider the one product has the \<open>externalId\<close>
  \<open>praxis-monthly-\<close> followed by the \<open>user_id\<close> of the request.
\<close>

theorem externalId_from_user_id:
  assumes "req_method req = ''POST''" and "req_body req = Inr r"
  shows "(\<exists>fc. ProviderFetch fc \<in> set (calls (serve e req s)))
       \<and> (\<forall>fc. ProviderFetch fc \<in> set (calls (serve e req s)) \<longrightarrow>
              map externalId (products (fc_body fc)) = [''praxis-monthly-'' @ user_id r])"
  using assms
  by (auto simp: outs steps provider_call_def billingData_def Let_def
      split: sum.splits provider_outcome.splits option.splits if_splits)

theorem externalId_from_user_id_witness:
  "req_method example_request = ''POST'' \<and> req_body example_request = Inr example_body
   \<and> ProviderFetch (provider_call (mock_env 200 None None) example_body)
        \<in> set (calls (serve (mock_env 200 None None) example_request empty_db))
   \<and> map externalId
        (products (fc_body (provider_call (mock_env 200 None None) example_body)))
       = [''praxis-monthly-abc123'']"
proof -
  have h1: "req_method example_request = ''POST''"
    by (simp add: example_request_def)
  have h2: "req_body example_request = Inr example_body"
    by (simp add: example_request_def)
  have v: "user_id example_body = ''abc123''"
    by (simp add: example_body_def)
  have c: "ProviderFetch (provider_call (mock_env 200 None None) example_body)
             \<in> set (calls (serve (mock_env 200 None None) example_request empty_db))"
    using h1 h2 by (rule provider_called)
  have "map externalId
          (products (fc_body (provider_call (mock_env 200 None None) example_body)))
        = [''praxis-monthly-'' @ user_id example_body]"
    using externalId_from_user_id [OF h1 h2, of "mock_env 200 None None" empty_db] c
    by blast
  then show ?thesis
    using h1 h2 c by (simp add: v)
qed

subsection \<open>The amount in minor units\<close>

text \<open>
  The literal \<open>9.90\<close> denotes the same double as \<open>9.9\<close>, and its product with 100 is
  the double 990.  The literal \<open>9.905\<close> denotes a double slightly below 9.905, and its
  product with 100, rounded to a double, is 990.4999999999999 (the double just below
  990.5).
\<close>

lemma double_9_90: "to_double (99 / 10) = Finite (5573204538870989 / 562949953421312)"
  by code_simp

lemma double_9_905: "to_double (9905 / 1000) = Finite (5576019288638095 / 562949953421312)"
  by code_simp

lemma product_9_90: "js_times (to_double (99 / 10)) (Finite 100) = Finite 990"
  by code_simp

lemma product_9_905:
  "js_times (to_double (9905 / 1000)) (Finite 100) = Finite (8712530138497023 / 8796093022208)"
  by code_simp

lemma cents_9_90: "Math_round (js_times (to_double (99 / 10)) (Finite 100)) = Finite 990"
  by code_simp

lemma cents_9_905: "Math_round (js_times (to_double (9905 / 1000)) (Finite 100)) = Finite 990"
  by code_simp

lemma floor_half_up:
  "p - 1 / 2 < of_int \<lfloor>p + 1 / 2\<rfloor> \<and> of_int \<lfloor>p + 1 / 2\<rfloor> \<le> p + 1 / 2" for p :: rat
  by linarith

text \<open>
  Claim C3, as the specification states it, fails: for the amount \<open>9.905\<close> the price
  sent to the provider is 990, not 991.
\<close>

theorem cents_of_9_905_counterexample:
  "ProviderFetch (provider_call (mock_env 200 None None) example_body_9_905)
     \<in> set (calls (serve (mock_env 200 None None) example_request_9_905 empty_db))
   \<and> map price (products (fc_body (provider_call (mock_env 200 None None) example_body_9_905)))
       = [Finite 990]
   \<and> map price (products (fc_body (provider_call (mock_env 200 None None) example_body_9_905)))
       \<noteq> [Finite 991]"
proof -
  have a: "amount example_body_9_905 = to_double (9905 / 1000)"
    unfolding example_body_9_905_def by simp
  have sent_to_provider:
    "ProviderFetch (provider_call (mock_env 200 None None) example_body_9_905)
       \<in> set (calls (serve (mock_env 200 None None) example_request_9_905 empty_db))"
    by (rule provider_called) (simp_all add: example_request_9_905_def example_request_def)
  show ?thesis
    unfolding price_transmitted a cents_9_905 using sent_to_provider by simp
qed

text \<open>
  Claim C3, amended.  The price sent is \<open>Math.round(amount * 100)\<close>, the product being
  a binary64 product: for a finite product \<open>p\<close> it is the integer \<open>n\<close> with
  \<open>p - 1/2 < n \<le> p + 1/2\<close>.  The amount \<open>9.90\<close> gives 990; the amount \<open>9.905\<close>
  gives 990 as well, because its product with 100 is the double 990.4999999999999.
\<close>

theorem cents_conversion_binary64:
  "map price (products (fc_body (provider_call e r)))
     = [Math_round (js_times (amount r) (Finite 100))]
   \<and> (amount r = to_double (99 / 10) \<longrightarrow>
        map price (products (fc_body (provider_call e r))) = [Finite 990])
   \<and> (amount r = to_double (9905 / 1000) \<longrightarrow>
        js_times (amount r) (Finite 100) = Finite (8712530138497023 / 8796093022208)
        \<and> map price (products (fc_body (provider_call e r))) = [Finite 990])
   \<and> (\<forall>a p. amount r = Finite a \<and> js_times (Finite a) (Finite 100) = Finite p \<longrightarrow>
        (\<exists>n::int. map price (products (fc_body (provider_call e r))) = [Finite (of_int n)]
                 \<and> p - 1 / 2 < of_int n \<and> of_int n \<le> p + 1 / 2))"
proof -
  have c1: "amount r = to_double (99 / 10) \<longrightarrow>
        map price (products (fc_body (provider_call e r))) = [Finite 990]"
    unfolding price_transmitted using cents_9_90 by auto
  have c2: "amount r = to_double (9905 / 1000) \<longrightarrow>
        js_times (amount r) (Finite 100) = Finite (8712530138497023 / 8796093022208)
        \<and> map price (products (fc_body (provider_call e r))) = [Finite 990]"
    unfolding price_transmitted using cents_9_905 product_9_905 by auto
  have c3: "\<forall>a p. amount r = Finite a \<and> js_times (Finite a) (Finite 100) = Finite p \<longrightarrow>
        (\<exists>n::int. map price (products (fc_body (provider_call e r))) = [Finite (of_int n)]
                 \<and> p - 1 / 2 < of_int n \<and> of_int n \<le> p + 1 / 2)"
    unfolding price_transmitted using floor_half_up by auto
  show ?thesis
    using price_transmitted [of e r] c1 c2 c3 by blast
qed

theorem cents_conversion_binary64_witness:
  "amount example_body = to_double (99 / 10)
   \<and> map price (products (fc_body (provider_call (mock_env 200 None None) example_body)))
       = [Finite 990]
   \<and> amount example_body_9_905 = to_double (9905 / 1000)
   \<and> map price (products (fc_body (provider_call (mock_env 200 None None) example_body_9_905)))
       = [Finite 990]
   \<and> amount example_body = Finite (5573204538870989 / 562949953421312)
   \<and> js_times (Finite (5573204538870989 / 562949953421312)) (Finite 100) = Finite 990
   \<and> (\<exists>n::int. map price (products (fc_body (provider_call (mock_env 200 None None)
                                                  example_body)))
                  = [Finite (of_int n)]
               \<and> 990 - 1 / 2 < (of_int n :: rat) \<and> (of_int n :: rat) \<le> 990 + 1 / 2)"
proof -
  have h1: "amount example_body = to_double (99 / 10)"
    unfolding example_body_def by simp
  have h2: "amount example_body_9_905 = to_double (9905 / 1000)"
    unfolding example_body_9_905_def by simp
  have h3: "amount example_body = Finite (5573204538870989 / 562949953421312)"
    unfolding h1 by (rule double_9_90)
  have h4: "js_times (Finite (5573204538870989 / 562949953421312)) (Finite 100) = Finite 990"
    using product_9_90 unfolding double_9_90 .
  note t1 = cents_conversion_binary64 [of "mock_env 200 None None" example_body]
  note t2 = cents_conversion_binary64 [of "mock_env 200 None None" example_body_9_905]
  show ?thesis
    using h1 h2 h3 h4 t1 t2 by blast
qed

subsection \<open>Failure responses\<close>

lemma show_402: "show_nat 402 = ''402''"
  by code_simp

text \<open>
  Claim C5, as the specification states it, fails: the response to a provider failure
  and the response to a failed upsert are both 500 and differ in their \<open>message\<close>,
  which tells the caller which step failed.
\<close>

theorem failure_responses_differ_counterexample:
  "sent (serve (mock_env 402 None None) example_request empty_db)
     = \<lparr>status = 500, headers = json_headers,
        body = Json (JObj [(''error'', JStr falha_ao_criar),
                           (''message'', JStr ''AbacatePay API error: 402'')])\<rparr>
   \<and> sent (serve (mock_env 200 (Some ''duplicate key'') None) example_request empty_db)
     = \<lparr>status = 500, headers = json_headers,
        body = Json (JObj [(''error'', JStr falha_ao_criar),
                           (''message'', JStr ''duplicate key'')])\<rparr>
   \<and> sent (serve (mock_env 402 None None) example_request empty_db)
     \<noteq> sent (serve (mock_env 200 (Some ''duplicate key'') None) example_request empty_db)"
  by (simp add: outs steps mocks ok_def error_response_def show_402)

text \<open>
  Claim C5, amended.  A \<open>POST\<close> request is answered with status 200 or with status 500
  and a body \<open>{error, message}\<close> in which \<open>error\<close> is always the same text and
  \<open>message\<close> is the message of the error caught: \<open>AbacatePay API error:\<close> and the
  status for a provider failure, the message of the database for a failed write.
\<close>

theorem failure_response_carries_error_message:
  assumes "req_method req = ''POST''"
  shows "(status (sent (serve e req s)) = 200
          \<or> (\<exists>m. sent (serve e req s)
                  = \<lparr>status = 500, headers = json_headers,
                     body = Json (JObj [(''error'', JStr falha_ao_criar),
                                        (''message'', JStr m)])\<rparr>))
       \<and> (\<forall>r p. req_body req = Inr r \<and> provider e (provider_call e r) = Responded p
                 \<and> \<not> ok p \<longrightarrow>
             sent (serve e req s)
               = \<lparr>status = 500, headers = json_headers,
                  body = Json (JObj [(''error'', JStr falha_ao_criar),
                                     (''message'',
                                      JStr (''AbacatePay API error: ''
                                            @ show_nat (provider_status p)))])\<rparr>)
       \<and> (\<forall>r p d m. req_body req = Inr r \<and> provider e (provider_call e r) = Responded p
                 \<and> ok p \<and> provider_json p = Inr d
                 \<and> (updateProfileError e = Some m
                    \<or> updateProfileError e = None \<and> insertPaymentError e = Some m) \<longrightarrow>
             sent (serve e req s)
               = \<lparr>status = 500, headers = json_headers,
                  body = Json (JObj [(''error'', JStr falha_ao_criar),
                                     (''message'', JStr m)])\<rparr>)"
  using assms
  by (auto simp: outs steps error_response_def success_response_def Let_def
      split: sum.splits provider_outcome.splits option.splits if_splits)

theorem failure_response_carries_error_message_witness:
  "req_method example_request = ''POST''
   \<and> sent (serve (mock_env 402 None None) example_request empty_db)
     = \<lparr>status = 500, headers = json_headers,
        body = Json (JObj [(''error'', JStr falha_ao_criar),
                           (''message'', JStr (''AbacatePay API error: '' @ show_nat 402))])\<rparr>
   \<and> sent (serve (mock_env 200 (Some ''duplicate key'') None) example_request empty_db)
     = \<lparr>status = 500, headers = json_headers,
        body = Json (JObj [(''error'', JStr falha_ao_criar),
                           (''message'', JStr ''duplicate key'')])\<rparr>
   \<and> sent (serve (mock_env 200 None (Some ''insert failed'')) example_request empty_db)
     = \<lparr>status = 500, headers = json_headers,
        body = Json (JObj [(''error'', JStr falha_ao_criar),
                           (''message'', JStr ''insert failed'')])\<rparr>"
proof -
  have h1: "req_method example_request = ''POST''"
    by (simp add: example_request_def)
  have h2: "req_body example_request = Inr example_body"
    by (simp add: example_request_def)
  have p: "provider (mock_env st up ins) (provider_call (mock_env st up ins) example_body)
           = Responded (mock_response st)" for st up ins
    by (simp add: mock_env_def)
  have k: "\<not> ok (mock_response 402)" "ok (mock_response 200)"
    "provider_json (mock_response 200) = Inr mock_data"
    "provider_status (mock_response 402) = 402"
    by (simp_all add: ok_def mock_response_def)
  have u: "updateProfileError (mock_env 200 (Some ''duplicate key'') None)
             = Some ''duplicate key''"
    "updateProfileError (mock_env 200 None (Some ''insert failed'')) = None"
    "insertPaymentError (mock_env 200 None (Some ''insert failed'')) = Some ''insert failed''"
    by (simp_all add: mock_env_def)
  note a = failure_response_carries_error_message
    [OF h1, of "mock_env 402 None None" empty_db]
  note b = failure_response_carries_error_message
    [OF h1, of "mock_env 200 (Some ''duplicate key'') None" empty_db]
  note c = failure_response_carries_error_message
    [OF h1, of "mock_env 200 None (Some ''insert failed'')" empty_db]
  have r1: "sent (serve (mock_env 402 None None) example_request empty_db)
     = \<lparr>status = 500, headers = json_headers,
        body = Json (JObj [(''error'', JStr falha_ao_criar),
                           (''message'', JStr (''AbacatePay API error: '' @ show_nat 402))])\<rparr>"
    using a h2 p [of 402 None None] k by metis
  have r2: "sent (serve (mock_env 200 (Some ''duplicate key'') None) example_request empty_db)
     = \<lparr>status = 500, headers = json_headers,
        body = Json (JObj [(''error'', JStr falha_ao_criar),
                           (''message'', JStr ''duplicate key'')])\<rparr>"
    using b h2 p [of 200 "Some ''duplicate key''" None] k u by blast
  have r3: "sent (serve (mock_env 200 None (Some ''insert failed'')) example_request empty_db)
     = \<lparr>status = 500, headers = json_headers,
        body = Json (JObj [(''error'', JStr falha_ao_criar),
                           (''message'', JStr ''insert failed'')])\<rparr>"
    using c h2 p [of 200 None "Some ''insert failed''"] k u by blast
  show ?thesis
    using h1 r1 r2 r3 by blast
qed

section \<open>Properties of the initiator\<close>

lemma hd_split: "split c s \<noteq> [] \<and> hd (split c s) = takeWhile (\<lambda>x. x \<noteq> c) s"
  by (induction s) (auto simp: Let_def)

lemma email_local_part_eq:
  "email_local_part u = map_option (takeWhile (\<lambda>x. x \<noteq> CHR ''@'')) (user_email u)"
  using hd_split [of "CHR ''@''"]
  by (auto simp: email_local_part_def split: option.splits list.splits)
     (metis list.sel(1) list.distinct(1))+

text \<open>
  Claim C9.  Without a user, \<open>handleSubscribe\<close> shows the message that one has to be
  logged in, navigates to \<open>/auth/login\<close> and does nothing else: it sends no request.
\<close>

theorem unauthenticated_makes_no_request:
  "handleSubscribe None network = [ToastError toast_login, Navigate ''/auth/login'']
   \<and> (\<forall>c. Fetch c \<notin> set (handleSubscribe None network))"
  by (simp add: handleSubscribe_def)

theorem unauthenticated_makes_no_request_witness:
  "handleSubscribe None offline = [ToastError toast_login, Navigate ''/auth/login'']"
  using unauthenticated_makes_no_request [of offline] by simp

text \<open>
  Claim C8.  With a user, \<open>handleSubscribe\<close> first sets the busy flag and sends one
  request.  In its body, \<open>name\<close> is the \<open>full_name\<close> of the profile when that is a
  non-empty string, otherwise the part of the address before the first \<open>@\<close> when that
  is non-empty, otherwise \<open>Cliente\<close>; \<open>cpf\<close> is the \<open>cpf\<close> of the profile when that
  is a non-empty string and eleven zeros when it is absent or empty; \<open>amount\<close> is the
  number \<open>9.90\<close> and \<open>description\<close> the text of the monthly plan.
\<close>

theorem subscribe_payload_construction:
  "(\<exists>rest. handleSubscribe (Some u) network
             = SetIsLoading True # Fetch (subscribe_call u) # rest)
   \<and> (\<forall>n. metadata_full_name u = Some n \<and> n \<noteq> [] \<longrightarrow>
         payload_name (payload_user_data (fc_body (subscribe_call u))) = n)
   \<and> (\<forall>a. (metadata_full_name u = None \<or> metadata_full_name u = Some [])
          \<and> user_email u = Some a \<and> takeWhile (\<lambda>x. x \<noteq> CHR ''@'') a \<noteq> [] \<longrightarrow>
         payload_name (payload_user_data (fc_body (subscribe_call u)))
           = takeWhile (\<lambda>x. x \<noteq> CHR ''@'') a)
   \<and> ((metadata_full_name u = None \<or> metadata_full_name u = Some [])
          \<and> (user_email u = None
              \<or> (\<exists>a. user_email u = Some a \<and> takeWhile (\<lambda>x. x \<noteq> CHR ''@'') a = [])) \<longrightarrow>
         payload_name (payload_user_data (fc_body (subscribe_call u))) = ''Cliente'')
   \<and> (\<forall>c. metadata_cpf u = Some c \<and> c \<noteq> [] \<longrightarrow>
         payload_cpf (payload_user_data (fc_body (subscribe_call u))) = c)
   \<and> (metadata_cpf u = None \<or> metadata_cpf u = Some [] \<longrightarrow>
         payload_cpf (payload_user_data (fc_body (subscribe_call u))) = ''00000000000'')
   \<and> payload_amount (fc_body (subscribe_call u)) = to_double (99 / 10)
   \<and> payload_description (fc_body (subscribe_call u)) = ''Assinatura mensal PRAXIS''"
  by (auto simp: handleSubscribe_def subscribe_call_def subscribe_payload_def
      js_or_literal_def js_or_def truthy_def email_local_part_eq)

theorem subscribe_payload_construction_witness:
  "metadata_full_name maria = Some ''Maria Silva''
   \<and> payload_name (payload_user_data (fc_body (subscribe_call maria))) = ''Maria Silva''
   \<and> metadata_cpf maria = None
   \<and> payload_cpf (payload_user_data (fc_body (subscribe_call maria))) = ''00000000000''
   \<and> metadata_full_name joao = None \<and> user_email joao = Some ''joao@x.com''
   \<and> payload_name (payload_user_data (fc_body (subscribe_call joao))) = ''joao''
   \<and> metadata_cpf joao = Some ''12345678909''
   \<and> payload_cpf (payload_user_data (fc_body (subscribe_call joao))) = ''12345678909''
   \<and> metadata_full_name anonymous = None \<and> user_email anonymous = None
   \<and> payload_name (payload_user_data (fc_body (subscribe_call anonymous))) = ''Cliente''"
proof -
  have m: "metadata_full_name maria = Some ''Maria Silva''" "''Maria Silva'' \<noteq> []"
    "metadata_cpf maria = None"
    by (simp_all add: metadata_full_name_def metadata_cpf_def maria_def)
  have j: "metadata_full_name joao = None" "user_email joao = Some ''joao@x.com''"
    "takeWhile (\<lambda>x. x \<noteq> CHR ''@'') ''joao@x.com'' = ''joao''" "''joao'' \<noteq> []"
    "metadata_cpf joao = Some ''12345678909''" "''12345678909'' \<noteq> []"
    by (simp_all add: metadata_full_name_def metadata_cpf_def joao_def)
  have a: "metadata_full_name anonymous = None" "user_email anonymous = None"
    by (simp_all add: metadata_full_name_def anonymous_def)
  note t1 = subscribe_payload_construction [of maria offline]
  note t2 = subscribe_payload_construction [of joao offline]
  note t3 = subscribe_payload_construction [of anonymous offline]
  have r1: "payload_name (payload_user_data (fc_body (subscribe_call maria))) = ''Maria Silva''"
    "payload_cpf (payload_user_data (fc_body (subscribe_call maria))) = ''00000000000''"
    using t1 m by blast+
  have r2: "payload_name (payload_user_data (fc_body (subscribe_call joao))) = ''joao''"
    "payload_cpf (payload_user_data (fc_body (subscribe_call joao))) = ''12345678909''"
    using t2 j by metis+
  have r3: "payload_name (payload_user_data (fc_body (subscribe_call anonymous))) = ''Cliente''"
    using t3 a by blast
  show ?thesis
    using m j a r1 r2 r3 by blast
qed

end
